theory Spec2Isabelle
  imports Complex_Main "HOL-Library.Char_ord" "HOL-Library.List_Lexorder" "HOL-Library.Word"
begin

section \<open>The Spotify 2023 dashboard: tables, loading, filtering, aggregates\<close>

text \<open>
  The program is one script, \<^verbatim>\<open>spotify_dashboard_1.py\<close>. It loads a CSV file into a
  pandas data frame (\<^verbatim>\<open>load_data\<close>), reads the sidebar controls, filters the frame
  (\<^verbatim>\<open>filtered_df\<close>), stops with a warning when nothing is left, and otherwise computes
  the key metrics and the charts' aggregates.

  A data frame is a list of rows in index order. The file is read with
  \<^verbatim>\<open>encoding='latin-1'\<close>, so a character of a cell is one byte, which is what
  \<^typ>\<open>char\<close> holds. A text cell that pandas reads as missing (NaN) is \<^const>\<open>None\<close>.
  The numeric columns the script compares and sums are integers; Python's integers are
  unbounded and so are these.
\<close>

subsection \<open>Rows\<close>

text \<open>
  The columns, under the names they have after the renaming at the top of
  \<^verbatim>\<open>load_data\<close>. \<open>other_columns\<close> stands for the cells of the columns the script
  never reads (playlist and chart counts and the like): dropping duplicate rows compares
  them too. The column \<^verbatim>\<open>streams\<close> is text in the file and an integer after
  loading, and \<^verbatim>\<open>decade\<close> exists only after loading, so they extend the common
  columns. The derived column \<^verbatim>\<open>released_date\<close> is a function of year, month and
  day of the same row; no aggregate modelled here reads it and it cannot tell two rows
  apart that agree on the other columns, so it is left out.
\<close>

record columns =
  track_name :: string
  artist_name :: "string option"
  released_year :: int
  released_month :: int
  released_day :: int
  bpm :: int
  key :: "string option"
  mode :: "string option"
  danceability :: int
  valence :: int
  energy :: int
  acousticness :: int
  instrumentalness :: int
  liveness :: int
  speechiness :: int
  other_columns :: "string list"

record raw_track = columns +
  streams_raw :: string

record song = columns +
  streams :: int

record track = song +
  decade :: int

subsection \<open>The sidebar controls\<close>

text \<open>
  The values the sliders and select boxes return. The script calls the three sliders of
  the expander \<^verbatim>\<open>danceability\<close>, \<^verbatim>\<open>energy\<close> and \<^verbatim>\<open>valence\<close>, the names of the
  columns they bound; here they carry the suffix \<open>_range\<close>.
\<close>

record controls =
  selected_artists_count :: int
  year_range :: "int \<times> int"
  bpm_range :: "int \<times> int"
  selected_key :: string
  selected_mode :: string
  danceability_range :: "int \<times> int"
  energy_range :: "int \<times> int"
  valence_range :: "int \<times> int"

subsection \<open>Filtering\<close>

text \<open>
  Lines 176 to 197: a boolean mask on year and tempo, then the key and the mode unless
  the select box shows \<^verbatim>\<open>'Semua'\<close>, then the mask of the three percentage sliders.
  Comparing a missing key with the selected string is false in pandas, which is
  \<open>None \<noteq> Some k\<close> here.
\<close>

definition basic_mask :: "controls \<Rightarrow> 'a columns_scheme \<Rightarrow> bool" where
  "basic_mask c r =
    (released_year r \<ge> fst (year_range c) \<and>
     released_year r \<le> snd (year_range c) \<and>
     bpm r \<ge> fst (bpm_range c) \<and>
     bpm r \<le> snd (bpm_range c))"

definition advanced_mask :: "controls \<Rightarrow> 'a columns_scheme \<Rightarrow> bool" where
  "advanced_mask c r =
    (danceability r \<ge> fst (danceability_range c) \<and>
     danceability r \<le> snd (danceability_range c) \<and>
     energy r \<ge> fst (energy_range c) \<and>
     energy r \<le> snd (energy_range c) \<and>
     valence r \<ge> fst (valence_range c) \<and>
     valence r \<le> snd (valence_range c))"

definition filtered_df :: "controls \<Rightarrow> track list \<Rightarrow> track list" where
  "filtered_df c df =
    (let f1 = filter (basic_mask c) df;
         f2 = (if selected_key c \<noteq> ''Semua''
               then filter (\<lambda>r. key r = Some (selected_key c)) f1 else f1);
         f3 = (if selected_mode c \<noteq> ''Semua''
               then filter (\<lambda>r. mode r = Some (selected_mode c)) f2 else f2)
     in filter (advanced_mask c) f3)"

subsection \<open>The constraint set, in the specification's words\<close>

text \<open>
  The specification describes the filter as one conjunction: five range constraints,
  each inclusive on both bounds, and two categorical constraints that are exact matches
  unless the selector holds the sentinel. These definitions follow that description;
  the theorems below compare them with \<^const>\<open>filtered_df\<close>.
\<close>

definition in_range :: "int \<times> int \<Rightarrow> int \<Rightarrow> bool" where
  "in_range rg x = (fst rg \<le> x \<and> x \<le> snd rg)"

definition ranges_hold :: "controls \<Rightarrow> 'a columns_scheme \<Rightarrow> bool" where
  "ranges_hold c r =
    (in_range (year_range c) (released_year r) \<and>
     in_range (bpm_range c) (bpm r) \<and>
     in_range (danceability_range c) (danceability r) \<and>
     in_range (energy_range c) (energy r) \<and>
     in_range (valence_range c) (valence r))"

definition key_holds :: "controls \<Rightarrow> 'a columns_scheme \<Rightarrow> bool" where
  "key_holds c r = (selected_key c = ''Semua'' \<or> key r = Some (selected_key c))"

definition mode_holds :: "controls \<Rightarrow> 'a columns_scheme \<Rightarrow> bool" where
  "mode_holds c r = (selected_mode c = ''Semua'' \<or> mode r = Some (selected_mode c))"

definition satisfies :: "controls \<Rightarrow> 'a columns_scheme \<Rightarrow> bool" where
  "satisfies c r = (ranges_hold c r \<and> key_holds c r \<and> mode_holds c r)"

text \<open>
  One range lies within another when every value it admits is admitted by the other;
  an empty range (lower bound above upper bound) lies within every range.
\<close>

definition range_within :: "int \<times> int \<Rightarrow> int \<times> int \<Rightarrow> bool" where
  "range_within a b = (snd a < fst a \<or> (fst b \<le> fst a \<and> snd a \<le> snd b))"

text \<open>
  \<open>widened c c'\<close>: the controls \<open>c'\<close> are \<open>c\<close> with exactly one of the five ranges
  replaced by a range that contains it.
\<close>

definition widened :: "controls \<Rightarrow> controls \<Rightarrow> bool" where
  "widened c c' =
    ((c' = c\<lparr>year_range := year_range c'\<rparr> \<and> range_within (year_range c) (year_range c')) \<or>
     (c' = c\<lparr>bpm_range := bpm_range c'\<rparr> \<and> range_within (bpm_range c) (bpm_range c')) \<or>
     (c' = c\<lparr>danceability_range := danceability_range c'\<rparr> \<and>
        range_within (danceability_range c) (danceability_range c')) \<or>
     (c' = c\<lparr>energy_range := energy_range c'\<rparr> \<and>
        range_within (energy_range c) (energy_range c')) \<or>
     (c' = c\<lparr>valence_range := valence_range c'\<rparr> \<and>
        range_within (valence_range c) (valence_range c')))"

subsection \<open>Sample data\<close>

text \<open>
  A track with the given artist cell, year, tempo, key, mode and stream count, the
  other cells fixed; and the controls as the sidebar shows them before the user touches
  anything but the year and tempo sliders.
\<close>

definition sample_track ::
  "string option \<Rightarrow> int \<Rightarrow> int \<Rightarrow> string option \<Rightarrow> string option \<Rightarrow> int \<Rightarrow> track" where
  "sample_track a y t k m s =
    \<lparr>track_name = ''Song'', artist_name = a, released_year = y, released_month = 7,
     released_day = 14, bpm = t, key = k, mode = m, danceability = 80, valence = 89,
     energy = 83, acousticness = 31, instrumentalness = 0, liveness = 8, speechiness = 4,
     other_columns = [], streams = s, decade = y div 10 * 10\<rparr>"

definition sample_controls :: "int \<times> int \<Rightarrow> int \<times> int \<Rightarrow> controls" where
  "sample_controls yr br =
    \<lparr>selected_artists_count = 15, year_range = yr, bpm_range = br,
     selected_key = ''Semua'', selected_mode = ''Semua'',
     danceability_range = (0, 100), energy_range = (0, 100), valence_range = (0, 100)\<rparr>"

subsection \<open>Loading\<close>

text \<open>
  Line 105, \<^verbatim>\<open>pd.to_numeric(df['streams'], errors='coerce')\<close>, gives a numeric column
  of the length of the frame: at each position a finite number, an infinity, or NaN
  where the cell is no number. A finite value of an integer or a float column is a
  rational. Which number stands at a position depends on pandas and on the whole column
  (a column with one cell that is no number is a float column, and its long integers
  are rounded), so the column reader is an argument of \<^verbatim>\<open>load_data\<close> below:
  \<open>to_numeric col i\<close> is the value at position \<open>i\<close> of the column read from the
  cells \<open>col\<close>. Every general theorem about the loader holds for any reader.
\<close>

datatype numeric = Finite rat | Infinite | NaN

text \<open>
  Line 107, \<^verbatim>\<open>astype('int64')\<close>, raises \<^verbatim>\<open>IntCastingNaNError\<close> when a value of the
  column is not finite. A finite value whose integer part fits 64 bits is stored as
  that integer part (the fraction is cut off, towards zero). For a finite value outside
  that range the cast stores whatever 64 bits the column type and the platform give,
  with no error: \<open>out_of_range\<close>, the second argument of the loader, is that result.
  Line 110, \<^verbatim>\<open>pd.to_datetime\<close> on the joined year, month and day, raises
  \<^verbatim>\<open>ValueError\<close> on a frame without rows.
\<close>

datatype exn = IntCastingNaNError | ValueError

definition trunc :: "rat \<Rightarrow> int" where
  "trunc q = (if 0 \<le> q then \<lfloor>q\<rfloor> else \<lceil>q\<rceil>)"

definition astype_value :: "(rat \<Rightarrow> 64 word) \<Rightarrow> rat \<Rightarrow> int" where
  "astype_value out_of_range q =
    (if - (2 ^ 63) \<le> trunc q \<and> trunc q < 2 ^ 63 then trunc q else sint (out_of_range q))"

definition with_streams :: "raw_track \<Rightarrow> int \<Rightarrow> song" where
  "with_streams r i = columns.extend (columns.truncate r) (song.fields i)"

fun astype_int64 :: "(rat \<Rightarrow> 64 word) \<Rightarrow> (raw_track \<times> numeric) list \<Rightarrow> exn + song list" where
  "astype_int64 out_of_range [] = Inr []"
| "astype_int64 out_of_range ((r, v) # rows) =
    (case v of
       Finite q \<Rightarrow>
        (case astype_int64 out_of_range rows of
           Inl e \<Rightarrow> Inl e
         | Inr songs \<Rightarrow> Inr (with_streams r (astype_value out_of_range q) # songs))
     | Infinite \<Rightarrow> Inl IntCastingNaNError
     | NaN \<Rightarrow> Inl IntCastingNaNError)"

text \<open>
  \<^verbatim>\<open>drop_duplicates\<close> keeps the first of the rows that are equal in every column
  (two missing cells count as equal, as \<open>None = None\<close>).
\<close>

fun drop_duplicates :: "'a list \<Rightarrow> 'a list" where
  "drop_duplicates [] = []"
| "drop_duplicates (x # xs) = x # drop_duplicates (filter (\<lambda>y. y \<noteq> x) xs)"

definition add_decade :: "song \<Rightarrow> track" where
  "add_decade s = song.extend s (track.fields (released_year s div 10 * 10))"

text \<open>
  \<^verbatim>\<open>load_data\<close>: \<open>csv\<close> is what \<^verbatim>\<open>pd.read_csv\<close> finds at the path, \<^const>\<open>None\<close> when
  the file is not there (the function then returns Python's \<^verbatim>\<open>None\<close>, which is
  \<open>Inr None\<close>). \<open>Inl\<close> is an exception that leaves the function. \<open>kept\<close> is
  the frame after \<^verbatim>\<open>dropna(subset=['streams'])\<close>: the rows whose value in the numeric
  column is not NaN, each with that value.
\<close>

definition load_data ::
  "(string list \<Rightarrow> nat \<Rightarrow> numeric) \<Rightarrow> (rat \<Rightarrow> 64 word) \<Rightarrow> raw_track list option \<Rightarrow>
     exn + track list option" where
  "load_data to_numeric out_of_range csv =
    (case csv of
       None \<Rightarrow> Inr None
     | Some df \<Rightarrow>
        (let col = to_numeric (map streams_raw df);
             coerced = map (\<lambda>i. (df ! i, col i)) [0..<length df];
             kept = filter (\<lambda>(r, v). v \<noteq> NaN) coerced
         in case astype_int64 out_of_range kept of
              Inl e \<Rightarrow> Inl e
            | Inr songs \<Rightarrow>
               (if songs = [] then Inl ValueError
                else Inr (Some (map add_decade (drop_duplicates songs))))))"

text \<open>
  A reader for the sample files. Each cell is read on its own: an optional sign, digits,
  and optionally a point and more digits; anything else is NaN. On the sample files,
  whose numbers are short and have a fraction of halves and quarters at most, this is
  the column pandas reads. The cast of the samples stores the bits of \<open>- 2 ^ 63\<close>
  for a value out of range; no sample has such a value.
\<close>

definition digit :: "char \<Rightarrow> int option" where
  "digit ch =
    (if ch = CHR ''0'' then Some 0 else if ch = CHR ''1'' then Some 1
     else if ch = CHR ''2'' then Some 2 else if ch = CHR ''3'' then Some 3
     else if ch = CHR ''4'' then Some 4 else if ch = CHR ''5'' then Some 5
     else if ch = CHR ''6'' then Some 6 else if ch = CHR ''7'' then Some 7
     else if ch = CHR ''8'' then Some 8 else if ch = CHR ''9'' then Some 9
     else None)"

fun digits :: "int \<Rightarrow> string \<Rightarrow> int option" where
  "digits acc [] = Some acc"
| "digits acc (ch # cs) =
    (case digit ch of None \<Rightarrow> None | Some d \<Rightarrow> digits (10 * acc + d) cs)"

definition unsigned_decimal :: "string \<Rightarrow> rat option" where
  "unsigned_decimal s =
    (let whole = takeWhile (\<lambda>ch. ch \<noteq> CHR ''.'') s;
         rest = dropWhile (\<lambda>ch. ch \<noteq> CHR ''.'') s
     in if whole = [] then None
        else case digits 0 whole of
          None \<Rightarrow> None
        | Some w \<Rightarrow>
           (case rest of
              [] \<Rightarrow> Some (of_int w)
            | point # decimals \<Rightarrow>
               (if decimals = [] then None
                else case digits 0 decimals of
                  None \<Rightarrow> None
                | Some f \<Rightarrow> Some (of_int w + of_int f / 10 ^ length decimals))))"

definition to_numeric_decimal :: "string \<Rightarrow> numeric" where
  "to_numeric_decimal s =
    (case s of
       [] \<Rightarrow> NaN
     | ch # cs \<Rightarrow>
        (if ch = CHR ''-'' then (case unsigned_decimal cs of None \<Rightarrow> NaN | Some q \<Rightarrow> Finite (- q))
         else if ch = CHR ''+'' then (case unsigned_decimal cs of None \<Rightarrow> NaN | Some q \<Rightarrow> Finite q)
         else (case unsigned_decimal s of None \<Rightarrow> NaN | Some q \<Rightarrow> Finite q)))"

definition sample_to_numeric :: "string list \<Rightarrow> nat \<Rightarrow> numeric" where
  "sample_to_numeric col i = (if i < length col then to_numeric_decimal (col ! i) else NaN)"

definition sample_out_of_range :: "rat \<Rightarrow> 64 word" where
  "sample_out_of_range q = 2 ^ 63"

definition sample_raw :: "string option \<Rightarrow> int \<Rightarrow> string \<Rightarrow> raw_track" where
  "sample_raw a y s =
    \<lparr>track_name = ''Song'', artist_name = a, released_year = y, released_month = 7,
     released_day = 14, bpm = 125, key = Some ''B'', mode = Some ''Major'',
     danceability = 80, valence = 89, energy = 83, acousticness = 31,
     instrumentalness = 0, liveness = 8, speechiness = 4, other_columns = [],
     streams_raw = s\<rparr>"

subsection \<open>Aggregates of the filtered view\<close>

text \<open>
  \<^verbatim>\<open>str.split(',_')\<close>: the pieces of a string between the occurrences of the
  separator, found from left to right. The separator of the script has no character a
  regular expression reads specially, so pandas's reading of it as a pattern changes
  nothing. \<open>piece\<close> is the part of the current piece already passed.
\<close>

function split_from :: "string \<Rightarrow> string \<Rightarrow> string \<Rightarrow> string list" where
  "split_from sep piece [] = [piece]"
| "split_from sep piece (ch # cs) =
    (if sep \<noteq> [] \<and> take (length sep) (ch # cs) = sep
     then piece # split_from sep [] (drop (length sep) (ch # cs))
     else split_from sep (piece @ [ch]) cs)"
  by pat_completeness auto
termination
  by (relation "measure (\<lambda>(sep, piece, s). length s)") auto

definition str_split :: "string \<Rightarrow> string \<Rightarrow> string list" where
  "str_split sep s = split_from sep [] s"

text \<open>
  Lines 271 to 273: the artist cell of every row is split at \<^verbatim>\<open>',_'\<close> and the row is
  repeated once for each piece (\<^verbatim>\<open>explode\<close>); a row with a missing artist stays as it is.
\<close>

definition df_artists :: "track list \<Rightarrow> track list" where
  "df_artists view =
    concat (map (\<lambda>r. case artist_name r of
                        None \<Rightarrow> [r]
                      | Some s \<Rightarrow> map (\<lambda>a. r\<lparr>artist_name := Some a\<rparr>) (str_split '',_'' s))
                view)"

text \<open>The cells of a column that are not missing.\<close>

definition present :: "'a option list \<Rightarrow> 'a list" where
  "present col = concat (map (\<lambda>x. case x of None \<Rightarrow> [] | Some a \<Rightarrow> [a]) col)"

text \<open>
  \<^verbatim>\<open>value_counts()\<close>: each distinct value that is not missing with the number of its
  occurrences, the largest count first; values with equal counts stay in the order of
  their first occurrence. \<^verbatim>\<open>nunique()\<close>: the number of distinct values that are not
  missing. \<^verbatim>\<open>nlargest(n)\<close>: the \<open>n\<close> entries with the largest values, largest first, an
  earlier entry before a later one of the same value; nothing when \<open>n\<close> is not positive.
  \<^const>\<open>sort_key\<close> is a stable sort.
\<close>

definition value_counts :: "'a option list \<Rightarrow> ('a \<times> int) list" where
  "value_counts col =
    (let vals = present col
     in sort_key (\<lambda>(a, n). - n)
          (map (\<lambda>a. (a, int (length (filter (\<lambda>b. b = a) vals)))) (drop_duplicates vals)))"

definition nunique :: "'a option list \<Rightarrow> int" where
  "nunique col = int (length (drop_duplicates (present col)))"

definition nlargest :: "int \<Rightarrow> ('a \<times> int) list \<Rightarrow> ('a \<times> int) list" where
  "nlargest n s = (if n \<le> 0 then [] else take (nat n) (sort_key (\<lambda>(a, v). - v) s))"

text \<open>
  \<^verbatim>\<open>groupby('artist_name')['streams'].sum()\<close>: one entry for each artist cell that is
  not missing, in the order of the names (Python compares strings character by
  character, by code), with the sum of the streams of its rows.
\<close>

definition groupby_artist_sum :: "track list \<Rightarrow> (string \<times> int) list" where
  "groupby_artist_sum rows =
    map (\<lambda>a. (a, sum_list (map streams (filter (\<lambda>r. artist_name r = Some a) rows))))
      (sort (drop_duplicates (present (map artist_name rows))))"

definition top_artists_count :: "int \<Rightarrow> track list \<Rightarrow> (string \<times> int) list" where
  "top_artists_count n view = nlargest n (value_counts (map artist_name (df_artists view)))"

definition top_artists_streams :: "int \<Rightarrow> track list \<Rightarrow> (string \<times> int) list" where
  "top_artists_streams n view = nlargest n (groupby_artist_sum (df_artists view))"

text \<open>
  Lines 215 to 217, the key metrics. pandas adds a column of 64-bit integers modulo
  \<open>2 ^ 64\<close>; the sums here and in the ranking above are exact, which is the same
  as long as they fit 64 bits.
\<close>

definition total_tracks :: "track list \<Rightarrow> int" where
  "total_tracks view = int (length view)"

definition total_artists :: "track list \<Rightarrow> int" where
  "total_artists view = nunique (map artist_name view)"

definition total_streams :: "track list \<Rightarrow> int" where
  "total_streams view = sum_list (map streams view)"

text \<open>
  \<^verbatim>\<open>filtered_df[audio_features].mean()\<close>: the mean of each of the seven feature
  columns, in the order of the list \<^verbatim>\<open>audio_features\<close>. The mean of an empty column is
  NaN in pandas.
\<close>

definition mean :: "int list \<Rightarrow> numeric" where
  "mean xs = (if xs = [] then NaN else Finite (of_int (sum_list xs) / of_nat (length xs)))"

definition avg_features :: "track list \<Rightarrow> (string \<times> numeric) list" where
  "avg_features view =
    [(''danceability'', mean (map danceability view)),
     (''valence'', mean (map valence view)),
     (''energy'', mean (map energy view)),
     (''acousticness'', mean (map acousticness view)),
     (''instrumentalness'', mean (map instrumentalness view)),
     (''liveness'', mean (map liveness view)),
     (''speechiness'', mean (map speechiness view))]"

subsection \<open>The page\<close>

text \<open>
  From line 208 on. With an empty view the script shows a warning and calls
  \<^verbatim>\<open>st.stop()\<close>, which ends the run: nothing below line 211 is executed. Otherwise it
  computes the figures it shows; the ones modelled are the three key metrics, the two
  artist rankings and the feature means. Drawing is not modelled.
\<close>

record figures =
  shown_total_tracks :: int
  shown_total_artists :: int
  shown_total_streams :: int
  shown_top_artists_count :: "(string \<times> int) list"
  shown_top_artists_streams :: "(string \<times> int) list"
  shown_avg_features :: "(string \<times> numeric) list"

datatype page = Warned_and_stopped string | Rendered figures

definition no_match_warning :: string where
  "no_match_warning =
    ''Tidak ada data yang cocok dengan filter yang Anda pilih. '' @
    ''Silakan sesuaikan kembali filter Anda.''"

definition render :: "int \<Rightarrow> track list \<Rightarrow> page" where
  "render n view =
    (if view = [] then Warned_and_stopped no_match_warning
     else Rendered
       \<lparr>shown_total_tracks = total_tracks view,
        shown_total_artists = total_artists view,
        shown_total_streams = total_streams view,
        shown_top_artists_count = top_artists_count n view,
        shown_top_artists_streams = top_artists_streams n view,
        shown_avg_features = avg_features view\<rparr>)"

text \<open>
  The script from the controls to the page, for a table that was loaded. The controls
  are what the sidebar (lines 126 to 174) returned; the sidebar itself, which reads the
  bounds of its sliders from the table, is not modelled.
\<close>

definition dashboard :: "controls \<Rightarrow> track list \<Rightarrow> page" where
  "dashboard c df = render (selected_artists_count c) (filtered_df c df)"

subsection \<open>Artist groups, in the specification's words\<close>

text \<open>
  The groups of the two artist rankings: the artist cells of the exploded frame that are
  not missing. And the count the specification asks of the key metrics: the number of
  distinct names after every artist cell is split at a separator.
\<close>

definition artist_groups :: "track list \<Rightarrow> string set" where
  "artist_groups view = {a. Some a \<in> set (map artist_name (df_artists view))}"

definition split_artist_count :: "string \<Rightarrow> track list \<Rightarrow> int" where
  "split_artist_count sep view =
    int (length (remdups (concat (map (str_split sep) (present (map artist_name view))))))"

subsection \<open>Sample tables\<close>

text \<open>
  The scenario of the specification: five rows with the years 2020, 2021 and 2022 and
  the tempos 90, 120 and 150, one of them with a year in 2021..2022 and a tempo in
  100..200.
\<close>

definition scenario_table :: "track list" where
  "scenario_table =
    [sample_track (Some ''A'') 2020 90 (Some ''B'') (Some ''Major'') 10,
     sample_track (Some ''A'') 2020 120 (Some ''C#'') (Some ''Minor'') 20,
     sample_track (Some ''B'') 2020 150 None (Some ''Major'') 30,
     sample_track (Some ''B'') 2021 120 None None 40,
     sample_track (Some ''C'') 2022 90 (Some ''C#'') (Some ''Major'') 50]"

text \<open>Three rows, the first with two artists joined the way the script splits them.\<close>

definition joined_table :: "track list" where
  "joined_table =
    [sample_track (Some ''A,_B'') 2023 120 (Some ''B'') (Some ''Major'') 100,
     sample_track (Some ''A'') 2023 120 (Some ''B'') (Some ''Major'') 10,
     sample_track (Some ''B'') 2023 120 (Some ''B'') (Some ''Major'') 1]"

text \<open>The same with the comma and the space of the data file.\<close>

definition comma_table :: "track list" where
  "comma_table =
    [sample_track (Some ''A, B'') 2023 120 (Some ''B'') (Some ''Major'') 100,
     sample_track (Some ''A'') 2023 120 (Some ''B'') (Some ''Major'') 10,
     sample_track (Some ''B'') 2023 120 (Some ''B'') (Some ''Major'') 1]"

section \<open>Properties of the filter\<close>

lemma filtered_df_filter: "filtered_df c df = filter (satisfies c) df"
  by (auto simp: filtered_df_def Let_def satisfies_def ranges_hold_def key_holds_def
      mode_holds_def in_range_def basic_mask_def advanced_mask_def intro!: filter_cong)

lemma range_within_iff: "range_within a b \<longleftrightarrow> {fst a..snd a} \<subseteq> {fst b..snd b}"
  by (auto simp: range_within_def)

lemma in_range_mono: "range_within a b \<Longrightarrow> in_range a x \<Longrightarrow> in_range b x"
  by (auto simp: range_within_def in_range_def)

lemma length_filter_mono:
  "(\<And>x. x \<in> set xs \<Longrightarrow> P x \<Longrightarrow> Q x) \<Longrightarrow> length (filter P xs) \<le> length (filter Q xs)"
  by (induction xs) auto

lemmas sample_defs = sample_track_def sample_controls_def scenario_table_def

lemmas constraint_defs =
  satisfies_def ranges_hold_def key_holds_def mode_holds_def in_range_def

text \<open>
  Claim C3. For every table and every setting of the controls, the filtered view holds
  exactly the rows of the table that satisfy all active constraints, in the table's
  order, each range taken with both of its bounds. In the scenario (five rows, year in
  2021..2022, tempo in 100..200) the view is the one row of 2021 with tempo 120.
\<close>

theorem filtered_view_exact:
  "filtered_df c df = filter (satisfies c) df \<and>
   set (filtered_df c df) = {r \<in> set df. satisfies c r} \<and>
   filtered_df (sample_controls (2021, 2022) (100, 200)) scenario_table =
     [sample_track (Some ''B'') 2021 120 None None 40] \<and>
   length (filtered_df (sample_controls (2021, 2022) (100, 200)) scenario_table) = 1"
proof -
  have general: "filtered_df c df = filter (satisfies c) df"
    by (rule filtered_df_filter)
  have scenario: "filtered_df (sample_controls (2021, 2022) (100, 200)) scenario_table =
      [sample_track (Some ''B'') 2021 120 None None 40]"
    by (simp add: filtered_df_filter constraint_defs sample_defs)
  from general scenario show ?thesis
    by simp
qed

text \<open>
  The theorem at controls with a key and a mode selected and with ranges whose bounds
  are met exactly: year 2020..2022 and tempo 90..120 keep the rows on the bounds.
\<close>

theorem filtered_view_exact_witness:
  "filtered_df
     (sample_controls (2020, 2022) (90, 120)\<lparr>selected_key := ''C#'', selected_mode := ''Major''\<rparr>)
     scenario_table =
   [sample_track (Some ''C'') 2022 90 (Some ''C#'') (Some ''Major'') 50]"
  using filtered_view_exact
    [of "sample_controls (2020, 2022) (90, 120)\<lparr>selected_key := ''C#'', selected_mode := ''Major''\<rparr>"
        scenario_table]
  by (simp add: constraint_defs sample_defs)

text \<open>
  Claim C4. When the key selector holds \<^verbatim>\<open>'Semua'\<close>, the key takes no part in the
  filter: the view is the table filtered by the ranges and the mode alone, so a row is
  kept whatever its key is, a missing key included. The same holds for the mode selector.
\<close>

theorem sentinel_skips_constraint:
  "(selected_key c = ''Semua'' \<longrightarrow>
      filtered_df c df = filter (\<lambda>r. ranges_hold c r \<and> mode_holds c r) df) \<and>
   (selected_mode c = ''Semua'' \<longrightarrow>
      filtered_df c df = filter (\<lambda>r. ranges_hold c r \<and> key_holds c r) df)"
  by (auto simp: filtered_df_filter satisfies_def key_holds_def mode_holds_def
      intro!: filter_cong)

text \<open>
  With both selectors at \<^verbatim>\<open>'Semua'\<close> and the years 2020..2021, the rows of the
  scenario with a missing key, and the one with a missing mode too, stay in the view.
\<close>

theorem sentinel_skips_constraint_witness:
  "selected_key (sample_controls (2020, 2021) (100, 200)) = ''Semua'' \<and>
   selected_mode (sample_controls (2020, 2021) (100, 200)) = ''Semua'' \<and>
   filtered_df (sample_controls (2020, 2021) (100, 200)) scenario_table =
     [sample_track (Some ''A'') 2020 120 (Some ''C#'') (Some ''Minor'') 20,
      sample_track (Some ''B'') 2020 150 None (Some ''Major'') 30,
      sample_track (Some ''B'') 2021 120 None None 40]"
  using sentinel_skips_constraint [of "sample_controls (2020, 2021) (100, 200)" scenario_table]
  by (simp add: constraint_defs sample_defs)

text \<open>
  Claim C10. When a key other than \<^verbatim>\<open>'Semua'\<close> is selected, no row with a missing key
  is in the filtered view, and every row of the view has the selected key; the same
  holds for the mode.
\<close>

theorem exact_match_excludes_null:
  "(selected_key c \<noteq> ''Semua'' \<and> key r = None \<longrightarrow> r \<notin> set (filtered_df c df)) \<and>
   (selected_mode c \<noteq> ''Semua'' \<and> mode r = None \<longrightarrow> r \<notin> set (filtered_df c df)) \<and>
   (selected_key c \<noteq> ''Semua'' \<longrightarrow>
      (\<forall>t \<in> set (filtered_df c df). key t = Some (selected_key c))) \<and>
   (selected_mode c \<noteq> ''Semua'' \<longrightarrow>
      (\<forall>t \<in> set (filtered_df c df). mode t = Some (selected_mode c)))"
  by (auto simp: filtered_df_filter satisfies_def key_holds_def mode_holds_def)

text \<open>
  With the key \<^verbatim>\<open>'C#'\<close> selected and every range wide open, the two rows of the
  scenario with a missing key are not in the view.
\<close>

theorem exact_match_excludes_null_witness:
  "selected_key (sample_controls (2020, 2022) (90, 150)\<lparr>selected_key := ''C#''\<rparr>) \<noteq> ''Semua'' \<and>
   key (sample_track (Some ''B'') 2021 120 None None 40) = None \<and>
   sample_track (Some ''B'') 2021 120 None None 40 \<in> set scenario_table \<and>
   sample_track (Some ''B'') 2021 120 None None 40 \<notin>
     set (filtered_df (sample_controls (2020, 2022) (90, 150)\<lparr>selected_key := ''C#''\<rparr>)
            scenario_table)"
  using exact_match_excludes_null
    [of "sample_controls (2020, 2022) (90, 150)\<lparr>selected_key := ''C#''\<rparr>"
        "sample_track (Some ''B'') 2021 120 None None 40" scenario_table]
  by (simp add: sample_defs)

lemma satisfies_year_mono:
  "c' = c\<lparr>year_range := y\<rparr> \<Longrightarrow> range_within (year_range c) y \<Longrightarrow>
     satisfies c r \<Longrightarrow> satisfies c' r"
  by (auto simp: satisfies_def ranges_hold_def key_holds_def mode_holds_def
      dest: in_range_mono)

lemma satisfies_bpm_mono:
  "c' = c\<lparr>bpm_range := y\<rparr> \<Longrightarrow> range_within (bpm_range c) y \<Longrightarrow>
     satisfies c r \<Longrightarrow> satisfies c' r"
  by (auto simp: satisfies_def ranges_hold_def key_holds_def mode_holds_def
      dest: in_range_mono)

lemma satisfies_danceability_mono:
  "c' = c\<lparr>danceability_range := y\<rparr> \<Longrightarrow> range_within (danceability_range c) y \<Longrightarrow>
     satisfies c r \<Longrightarrow> satisfies c' r"
  by (auto simp: satisfies_def ranges_hold_def key_holds_def mode_holds_def
      dest: in_range_mono)

lemma satisfies_energy_mono:
  "c' = c\<lparr>energy_range := y\<rparr> \<Longrightarrow> range_within (energy_range c) y \<Longrightarrow>
     satisfies c r \<Longrightarrow> satisfies c' r"
  by (auto simp: satisfies_def ranges_hold_def key_holds_def mode_holds_def
      dest: in_range_mono)

lemma satisfies_valence_mono:
  "c' = c\<lparr>valence_range := y\<rparr> \<Longrightarrow> range_within (valence_range c) y \<Longrightarrow>
     satisfies c r \<Longrightarrow> satisfies c' r"
  by (auto simp: satisfies_def ranges_hold_def key_holds_def mode_holds_def
      dest: in_range_mono)

lemma widened_satisfies: "widened c c' \<Longrightarrow> satisfies c r \<Longrightarrow> satisfies c' r"
  unfolding widened_def
  by (elim disjE conjE)
     (erule (2) satisfies_year_mono satisfies_bpm_mono satisfies_danceability_mono
        satisfies_energy_mono satisfies_valence_mono)+

text \<open>
  Claim C9. If two settings of the controls differ in one range only and the second
  setting's range contains the first's, the filtered view of any table under the second
  has at least as many rows as under the first. Read from the second setting to the
  first, this is the narrowing half: narrowing one range never adds a row.
\<close>

theorem widening_never_shrinks:
  "widened c c' \<Longrightarrow> length (filtered_df c df) \<le> length (filtered_df c' df)"
  by (simp add: filtered_df_filter length_filter_mono widened_satisfies)

text \<open>
  Widening the years of the scenario from 2021..2022 to 2020..2022 takes the view from
  one row to three.
\<close>

theorem widening_never_shrinks_witness:
  "widened (sample_controls (2021, 2022) (100, 200)) (sample_controls (2020, 2022) (100, 200)) \<and>
   length (filtered_df (sample_controls (2021, 2022) (100, 200)) scenario_table) = 1 \<and>
   length (filtered_df (sample_controls (2020, 2022) (100, 200)) scenario_table) = 3 \<and>
   length (filtered_df (sample_controls (2021, 2022) (100, 200)) scenario_table)
     \<le> length (filtered_df (sample_controls (2020, 2022) (100, 200)) scenario_table)"
proof -
  have w: "widened (sample_controls (2021, 2022) (100, 200))
      (sample_controls (2020, 2022) (100, 200))"
    by (simp add: widened_def sample_controls_def range_within_def)
  have one: "length (filtered_df (sample_controls (2021, 2022) (100, 200)) scenario_table) = 1"
    by (simp add: filtered_df_filter constraint_defs sample_defs)
  have three: "length (filtered_df (sample_controls (2020, 2022) (100, 200)) scenario_table) = 3"
    by (simp add: filtered_df_filter constraint_defs sample_defs)
  from w one three widening_never_shrinks [OF w, of scenario_table] show ?thesis
    by simp
qed

section \<open>Properties of the page and of the aggregates\<close>

text \<open>
  Claim C7. When the filtered view has no row, the page is the warning that no data
  matches the filter and nothing else: no metric, ranking or mean is computed, and no
  error is raised. Figures are shown only for a view that has a row.
\<close>

theorem empty_view_stops:
  "render n [] = Warned_and_stopped no_match_warning \<and>
   (filtered_df c df = [] \<longrightarrow> dashboard c df = Warned_and_stopped no_match_warning) \<and>
   (dashboard c df = Rendered f \<longrightarrow> filtered_df c df \<noteq> [])"
  by (auto simp: render_def dashboard_def)

text \<open>No row of the scenario is of the years 1990..1999: the page is the warning.\<close>

theorem empty_view_stops_witness:
  "filtered_df (sample_controls (1990, 1999) (100, 200)) scenario_table = [] \<and>
   dashboard (sample_controls (1990, 1999) (100, 200)) scenario_table =
     Warned_and_stopped no_match_warning"
proof -
  have empty: "filtered_df (sample_controls (1990, 1999) (100, 200)) scenario_table = []"
    by (simp add: filtered_df_filter constraint_defs sample_defs)
  from empty empty_view_stops [of _ "sample_controls (1990, 1999) (100, 200)" scenario_table]
  show ?thesis
    by simp
qed

lemma set_drop_duplicates [simp]: "set (drop_duplicates xs) = set xs"
  by (induction xs rule: drop_duplicates.induct) auto

lemma distinct_drop_duplicates [simp]: "distinct (drop_duplicates xs)"
  by (induction xs rule: drop_duplicates.induct) auto

lemma length_drop_duplicates: "length (drop_duplicates xs) = card (set xs)"
  using distinct_card [of "drop_duplicates xs"] by simp

lemma set_present: "set (present col) = {a. Some a \<in> set col}"
  by (induction col) (auto simp: present_def split: option.splits)

lemma length_nlargest: "length (nlargest n s) = min (nat n) (length s)"
  by (simp add: nlargest_def min.commute)

lemma length_value_counts: "length (value_counts col) = card {a. Some a \<in> set col}"
  by (simp add: value_counts_def Let_def length_drop_duplicates set_present)

lemma length_groupby_artist_sum:
  "length (groupby_artist_sum rows) = card {a. Some a \<in> set (map artist_name rows)}"
  by (simp add: groupby_artist_sum_def length_drop_duplicates set_present)

text \<open>
  Claim C8. For every view and every \<open>n\<close>, each of the two artist rankings has exactly
  the smaller of \<open>n\<close> and the number of artist groups as its number of entries; so with
  \<open>n\<close> above the number of groups it has one entry for each group and no more. (For
  \<open>0 \<le> n\<close>, \<open>nat n\<close> is \<open>n\<close>; the slider gives an \<open>n\<close> from 5 to 30.)
\<close>

theorem top_n_clamped:
  "length (top_artists_count n view) = min (nat n) (card (artist_groups view)) \<and>
   length (top_artists_streams n view) = min (nat n) (card (artist_groups view))"
  by (simp add: top_artists_count_def top_artists_streams_def length_nlargest
      length_value_counts length_groupby_artist_sum artist_groups_def)

text \<open>
  The scenario has three artists: asking for 15 gives three entries in each ranking,
  asking for two gives two.
\<close>

theorem top_n_clamped_witness:
  "card (artist_groups scenario_table) = 3 \<and>
   top_artists_count 15 scenario_table = [(''A'', 2), (''B'', 2), (''C'', 1)] \<and>
   length (top_artists_streams 15 scenario_table) = 3 \<and>
   length (top_artists_count 2 scenario_table) = 2 \<and>
   length (top_artists_streams 2 scenario_table) = 2"
proof -
  have all: "top_artists_count 15 scenario_table = [(''A'', 2), (''B'', 2), (''C'', 1)]"
    by code_simp
  then have three: "length (top_artists_count 15 scenario_table) = 3"
    by simp
  have clamp: "length (top_artists_count 15 scenario_table) =
      min 15 (card (artist_groups scenario_table))"
    using top_n_clamped [of 15 scenario_table] by simp
  from three clamp have groups: "card (artist_groups scenario_table) = 3"
    by linarith
  from groups all top_n_clamped [of 15 scenario_table] top_n_clamped [of 2 scenario_table]
  show ?thesis
    by simp
qed

text \<open>
  Claim C1 asks that the metric of distinct artists count the names after splitting.
  The script computes it as \<^verbatim>\<open>filtered_df['artist_name'].nunique()\<close>, on the cells as
  they are: on three rows with the artists \<open>A,_B\<close>, \<open>A\<close> and \<open>B\<close> it shows 3, where
  the names after splitting at the script's own separator are 2; and on \<open>A, B\<close>,
  \<open>A\<close>, \<open>B\<close> it shows 3, where splitting at comma and space leaves 2.
\<close>

theorem total_artists_counts_joined_cells:
  "total_artists joined_table = 3 \<and>
   split_artist_count '',_'' joined_table = 2 \<and>
   total_artists comma_table = 3 \<and>
   split_artist_count '', '' comma_table = 2"
  by code_simp

text \<open>
  Claim C2 asks that the artist cell \<open>A, B\<close> count once for \<open>A\<close> and once for \<open>B\<close>.
  The script splits at \<^verbatim>\<open>',_'\<close>, which does not occur in \<open>A, B\<close>: the cell stays whole
  and both rankings have the one group \<open>A, B\<close>. A cell \<open>A,_B\<close> is split.
\<close>

theorem comma_space_cell_not_split:
  "str_split '',_'' ''A, B'' = [''A, B''] \<and>
   top_artists_count 15 [sample_track (Some ''A, B'') 2023 120 None None 100] =
     [(''A, B'', 1)] \<and>
   top_artists_streams 15 [sample_track (Some ''A, B'') 2023 120 None None 100] =
     [(''A, B'', 100)] \<and>
   top_artists_count 15 [sample_track (Some ''A,_B'') 2023 120 None None 100] =
     [(''A'', 1), (''B'', 1)]"
  by code_simp

section \<open>Properties of the loader\<close>

lemma streams_add_decade: "streams (add_decade (with_streams r i)) = i"
  by (simp add: add_decade_def with_streams_def columns.defs song.defs track.defs)

lemma list_all2_member:
  "list_all2 P xs ys \<Longrightarrow> y \<in> set ys \<Longrightarrow> \<exists>x \<in> set xs. P x y"
  by (induction rule: list_all2_induct) auto

text \<open>
  A cast that does not raise turns the rows one by one, in order: each had a finite
  value and has the cast of that value as its streams.
\<close>

lemma astype_int64_Inr:
  "astype_int64 ovf rows = Inr songs \<Longrightarrow>
     list_all2 (\<lambda>(r, v) s. \<exists>q. v = Finite q \<and> s = with_streams r (astype_value ovf q))
       rows songs"
proof (induction rows arbitrary: songs)
  case Nil
  then show ?case by simp
next
  case (Cons p rows)
  obtain r v where p: "p = (r, v)" by (cases p)
  from Cons.prems p obtain q rest where "v = Finite q" "astype_int64 ovf rows = Inr rest"
    "songs = with_streams r (astype_value ovf q) # rest"
    by (auto split: numeric.splits sum.splits)
  with Cons.IH [of rest] p show ?case by simp
qed

lemma load_data_Some:
  assumes "load_data N ovf (Some df) = Inr (Some tbl)"
  obtains songs where
    "astype_int64 ovf (filter (\<lambda>(r, v). v \<noteq> NaN)
        (map (\<lambda>i. (df ! i, N (map streams_raw df) i)) [0..<length df])) = Inr songs"
    and "songs \<noteq> []" and "tbl = map add_decade (drop_duplicates songs)"
  using assms by (auto simp: load_data_def Let_def split: sum.splits if_splits)

text \<open>
  Every row of a loaded table is a row of the file whose value in the numeric column
  is a finite number, with the cast of that number as its streams.
\<close>

lemma load_data_rows:
  assumes "load_data N ovf (Some df) = Inr (Some tbl)" and "t \<in> set tbl"
  shows "\<exists>i < length df. \<exists>q. N (map streams_raw df) i = Finite q \<and>
           t = add_decade (with_streams (df ! i) (astype_value ovf q))"
proof -
  define kept where "kept = filter (\<lambda>(r, v). v \<noteq> NaN)
        (map (\<lambda>i. (df ! i, N (map streams_raw df) i)) [0..<length df])"
  from assms(1) obtain songs where cast: "astype_int64 ovf kept = Inr songs"
    and tbl: "tbl = map add_decade (drop_duplicates songs)"
    unfolding kept_def by (rule load_data_Some)
  from tbl assms(2) obtain s where s: "s \<in> set songs" "t = add_decade s"
    by auto
  from list_all2_member [OF astype_int64_Inr [OF cast] s(1)] obtain r v q
    where rv: "(r, v) \<in> set kept" "v = Finite q" "s = with_streams r (astype_value ovf q)"
    by auto
  from rv(1) obtain i where "i < length df" "r = df ! i" "v = N (map streams_raw df) i"
    by (auto simp: kept_def)
  with rv s(2) show ?thesis
    by auto
qed

lemma load_data_length:
  assumes "load_data N ovf (Some df) = Inr (Some tbl)"
  shows "length tbl \<le>
    length (filter (\<lambda>i. N (map streams_raw df) i \<noteq> NaN) [0..<length df])"
proof -
  define kept where "kept = filter (\<lambda>(r, v). v \<noteq> NaN)
        (map (\<lambda>i. (df ! i, N (map streams_raw df) i)) [0..<length df])"
  from assms obtain songs where cast: "astype_int64 ovf kept = Inr songs"
    and tbl: "tbl = map add_decade (drop_duplicates songs)"
    unfolding kept_def by (rule load_data_Some)
  have "length tbl = card (set songs)"
    by (simp add: tbl length_drop_duplicates)
  also have "\<dots> \<le> length songs"
    by (rule card_length)
  also have "\<dots> = length kept"
    using astype_int64_Inr [OF cast] by (simp add: list_all2_lengthD)
  also have "\<dots> =
      length (filter (\<lambda>i. N (map streams_raw df) i \<noteq> NaN) [0..<length df])"
    unfolding kept_def by (simp add: filter_map comp_def)
  finally show ?thesis .
qed

text \<open>
  Claim C5. Whatever pandas reads as a number: in the table of a file the loader
  accepts, every row is a row of the file whose streams cell was read as a number (its
  value in the numeric column is not NaN, and is finite), with the cast of that number
  as its streams; and the table has no more rows than the file has rows with such a
  cell. So a row whose streams cell is no number is not in the table, with 0 or with
  anything else as its streams.
\<close>

theorem unparseable_streams_dropped:
  assumes "load_data N ovf (Some df) = Inr (Some tbl)"
  shows "(\<forall>t \<in> set tbl. \<exists>i < length df. N (map streams_raw df) i \<noteq> NaN \<and>
            (\<exists>q. N (map streams_raw df) i = Finite q \<and>
                 t = add_decade (with_streams (df ! i) (astype_value ovf q)))) \<and>
         length tbl \<le>
           length (filter (\<lambda>i. N (map streams_raw df) i \<noteq> NaN) [0..<length df])"
  using load_data_rows [OF assms] load_data_length [OF assms] by fastforce

text \<open>
  The scenario of the specification: a file of two rows, the first with \<open>N/A\<close> for its
  streams. The loaded table is the second row alone.
\<close>

theorem unparseable_streams_dropped_witness:
  "sample_to_numeric [''N/A'', ''141381703''] 0 = NaN \<and>
   load_data sample_to_numeric sample_out_of_range
     (Some [sample_raw (Some ''A'') 2023 ''N/A'', sample_raw (Some ''B'') 2023 ''141381703'']) =
   Inr (Some [sample_track (Some ''B'') 2023 125 (Some ''B'') (Some ''Major'') 141381703]) \<and>
   length [sample_track (Some ''B'') 2023 125 (Some ''B'') (Some ''Major'') 141381703] \<le>
     length
       (filter
         (\<lambda>i. sample_to_numeric
                (map streams_raw
                  [sample_raw (Some ''A'') 2023 ''N/A'',
                   sample_raw (Some ''B'') 2023 ''141381703'']) i \<noteq> NaN)
         [0..<length [sample_raw (Some ''A'') 2023 ''N/A'',
                      sample_raw (Some ''B'') 2023 ''141381703'']])"
proof -
  have bad: "sample_to_numeric [''N/A'', ''141381703''] 0 = NaN"
    by code_simp
  have loaded: "load_data sample_to_numeric sample_out_of_range
      (Some [sample_raw (Some ''A'') 2023 ''N/A'', sample_raw (Some ''B'') 2023 ''141381703'']) =
    Inr (Some [sample_track (Some ''B'') 2023 125 (Some ''B'') (Some ''Major'') 141381703])"
    by code_simp
  from unparseable_streams_dropped [OF loaded] bad loaded show ?thesis
    by blast
qed

text \<open>
  Claim C6 as stated fails: a streams cell \<open>-5\<close> is a number, the row is kept, and its
  streams are \<open>-5\<close>.
\<close>

theorem negative_streams_kept:
  "load_data sample_to_numeric sample_out_of_range (Some [sample_raw (Some ''A'') 2023 ''-5'']) =
     Inr (Some [sample_track (Some ''A'') 2023 125 (Some ''B'') (Some ''Major'') (- 5)]) \<and>
   streams (sample_track (Some ''A'') 2023 125 (Some ''B'') (Some ''Major'') (- 5)) < 0"
  by code_simp

text \<open>
  Claim C6, amended. For every file the loader accepts, every row of the table has an
  integer as its streams: the row is a row of the file, its streams cell was read as a
  finite number, and its streams are what the cast to \<^verbatim>\<open>int64\<close> stores for that
  number. Nothing in the loader looks at the sign.
\<close>

theorem loaded_streams_integral:
  assumes "load_data N ovf csv = Inr (Some tbl)" and "t \<in> set tbl"
  shows "\<exists>df. csv = Some df \<and>
          (\<exists>i < length df. \<exists>q. N (map streams_raw df) i = Finite q \<and>
             t = add_decade (with_streams (df ! i) (streams t)) \<and>
             streams t = astype_value ovf q)"
proof -
  from assms(1) obtain df where df: "csv = Some df"
    by (cases csv) (simp_all add: load_data_def)
  from load_data_rows [OF assms(1) [unfolded df] assms(2)] obtain i q
    where iq: "i < length df" "N (map streams_raw df) i = Finite q"
      "t = add_decade (with_streams (df ! i) (astype_value ovf q))"
    by blast
  from iq have st: "streams t = astype_value ovf q"
    by (simp add: streams_add_decade)
  from df iq st show ?thesis
    by auto
qed

text \<open>
  A file with the streams cells \<open>-5\<close> and \<open>12.75\<close>: the table has the streams \<open>-5\<close>
  and 12, and its second row is the second row of the file.
\<close>

theorem loaded_streams_integral_witness:
  "load_data sample_to_numeric sample_out_of_range
     (Some [sample_raw (Some ''A'') 2023 ''-5'', sample_raw (Some ''B'') 2023 ''12.75'']) =
   Inr (Some [sample_track (Some ''A'') 2023 125 (Some ''B'') (Some ''Major'') (- 5),
              sample_track (Some ''B'') 2023 125 (Some ''B'') (Some ''Major'') 12]) \<and>
   (\<exists>i < length [sample_raw (Some ''A'') 2023 ''-5'', sample_raw (Some ''B'') 2023 ''12.75''].
      \<exists>q. sample_to_numeric
             (map streams_raw
               [sample_raw (Some ''A'') 2023 ''-5'', sample_raw (Some ''B'') 2023 ''12.75'']) i =
           Finite q \<and>
        sample_track (Some ''B'') 2023 125 (Some ''B'') (Some ''Major'') 12 =
          add_decade
            (with_streams
              ([sample_raw (Some ''A'') 2023 ''-5'', sample_raw (Some ''B'') 2023 ''12.75''] ! i)
              (streams (sample_track (Some ''B'') 2023 125 (Some ''B'') (Some ''Major'') 12))) \<and>
        streams (sample_track (Some ''B'') 2023 125 (Some ''B'') (Some ''Major'') 12) =
          astype_value sample_out_of_range q)"
proof -
  have loaded: "load_data sample_to_numeric sample_out_of_range
      (Some [sample_raw (Some ''A'') 2023 ''-5'', sample_raw (Some ''B'') 2023 ''12.75'']) =
    Inr (Some [sample_track (Some ''A'') 2023 125 (Some ''B'') (Some ''Major'') (- 5),
               sample_track (Some ''B'') 2023 125 (Some ''B'') (Some ''Major'') 12])"
    by code_simp
  have "\<exists>df. Some [sample_raw (Some ''A'') 2023 ''-5'', sample_raw (Some ''B'') 2023 ''12.75''] =
        Some df \<and>
      (\<exists>i < length df. \<exists>q. sample_to_numeric (map streams_raw df) i = Finite q \<and>
         sample_track (Some ''B'') 2023 125 (Some ''B'') (Some ''Major'') 12 =
           add_decade (with_streams (df ! i)
             (streams (sample_track (Some ''B'') 2023 125 (Some ''B'') (Some ''Major'') 12))) \<and>
         streams (sample_track (Some ''B'') 2023 125 (Some ''B'') (Some ''Major'') 12) =
           astype_value sample_out_of_range q)"
    by (rule loaded_streams_integral [OF loaded]) simp
  then have "\<exists>i < length [sample_raw (Some ''A'') 2023 ''-5'', sample_raw (Some ''B'') 2023 ''12.75''].
      \<exists>q. sample_to_numeric
             (map streams_raw
               [sample_raw (Some ''A'') 2023 ''-5'', sample_raw (Some ''B'') 2023 ''12.75'']) i =
           Finite q \<and>
        sample_track (Some ''B'') 2023 125 (Some ''B'') (Some ''Major'') 12 =
          add_decade
            (with_streams
              ([sample_raw (Some ''A'') 2023 ''-5'', sample_raw (Some ''B'') 2023 ''12.75''] ! i)
              (streams (sample_track (Some ''B'') 2023 125 (Some ''B'') (Some ''Major'') 12))) \<and>
        streams (sample_track (Some ''B'') 2023 125 (Some ''B'') (Some ''Major'') 12) =
          astype_value sample_out_of_range q"
    by blast
  with loaded show ?thesis
    by blast
qed

end
